theory Spec2Isabelle
  imports Complex_Main
begin

section \<open>WeChat Cover Pro: the composition and export engine of \<open>src/index.tsx\<close>\<close>

text \<open>
  The single component \<open>App\<close> keeps its state in React hooks and changes it in event
  handlers. Each handler is embedded as a function from the state it closes over (and the
  data of its event) to the state after it.

  JavaScript numbers are embedded as \<^typ>\<open>real\<close>: the arithmetic of the handlers is read
  as exact arithmetic, rounding of doubles is not modelled. Every division of the export
  path divides by a constant or by a crop side, which is positive for a positive source
  size, so no theorem below rests on HOL's \<open>x / 0 = 0\<close>.

  Strings are \<^typ>\<open>string\<close>; \<open>null\<close> is \<^const>\<open>None\<close>.
\<close>

subsection \<open>State\<close>

text \<open>\<open>interface OverlayState\<close> (lines 33-40).\<close>

record OverlayState =
  ov_text :: string
  ov_color :: string
  ov_font :: string
  ov_x :: real
  ov_y :: real
  ov_isDragging :: bool

datatype tab = Editor | Preview

text \<open>The \<open>useState\<close> cells of \<open>App\<close> (lines 46-62).\<close>

record AppState =
  prompt :: string
  refImage :: "string option"
  generatedImage :: "string option"
  isGenerating :: bool
  error :: "string option"
  activeTab :: tab
  showOverlay :: bool
  overlay :: OverlayState

text \<open>The font table (lines 25-30), as pairs of \<open>name\<close> and \<open>value\<close>.\<close>

definition FONTS :: "(string \<times> string) list" where
  \<open>FONTS =
     [(''Modern Sans'', ''"Noto Sans SC", sans-serif''),
      (''Elegant Serif'', ''"Noto Serif SC", serif''),
      (''Playful'', ''"ZCOOL KuaiLe", cursive''),
      (''System Default'',
       ''-apple-system, BlinkMacSystemFont, "Segoe UI", Roboto, sans-serif'')]\<close>

text \<open>The initial values given to \<open>useState\<close> (lines 46-62).\<close>

definition initialState :: AppState where
  "initialState =
     \<lparr>prompt = [],
      refImage = None,
      generatedImage = None,
      isGenerating = False,
      error = None,
      activeTab = Editor,
      showOverlay = False,
      overlay = \<lparr>ov_text = [], ov_color = ''#ffffff'', ov_font = snd (hd FONTS),
                 ov_x = 50, ov_y = 50, ov_isDragging = False\<rparr>\<rparr>"

text \<open>Truthiness of a \<open>string | null\<close>: \<open>null\<close> and the empty string are falsy.\<close>

definition truthy :: "string option \<Rightarrow> bool" where
  "truthy v = (case v of None \<Rightarrow> False | Some s \<Rightarrow> s \<noteq> [])"

text \<open>
  \<open>String.prototype.trim\<close> strips white space and line terminators from both ends. Of
  the code units ECMAScript lists, those that a \<^typ>\<open>char\<close> can hold are TAB, LF, VT, FF,
  CR, SP and NBSP.
\<close>

definition isWhiteSpace :: "char \<Rightarrow> bool" where
  "isWhiteSpace c = (of_char c \<in> {9, 10, 11, 12, 13, 32, 160 :: nat})"

definition trim :: "string \<Rightarrow> string" where
  "trim s = rev (dropWhile isWhiteSpace (rev (dropWhile isWhiteSpace s)))"

subsection \<open>Crop planning (\<open>downloadImage\<close>, lines 219-251)\<close>

text \<open>The argument \<open>type: 'full' | 'cover' | 'thumb'\<close>; \<open>thumb\<close> is the icon export.\<close>

datatype export_kind = Full | Cover | Thumb

text \<open>The variables \<open>targetW, targetH, sx, sy, sw, sh\<close> of \<open>img.onload\<close>.\<close>

record CropGeometry =
  targetW :: real
  targetH :: real
  sx :: real
  sy :: real
  sw :: real
  sh :: real

text \<open>The locals \<open>scale\<close> and \<open>cropHeight\<close> of the cover branch (lines 234 and 236).\<close>

definition coverScale :: "real \<Rightarrow> real" where
  "coverScale sourceW = sourceW / 900"

definition coverCropHeight :: "real \<Rightarrow> real" where
  "coverCropHeight sourceW = 383 * coverScale sourceW"

definition cropGeometry :: "export_kind \<Rightarrow> real \<Rightarrow> real \<Rightarrow> CropGeometry" where
  "cropGeometry type sourceW sourceH =
     (if type = Full then
        \<lparr>targetW = sourceW, targetH = sourceH,
         sx = 0, sy = 0, sw = sourceW, sh = sourceH\<rparr>
      else if type = Cover then
        (let cropHeight = coverCropHeight sourceW in
         \<lparr>targetW = 900, targetH = 383,
          sx = 0, sy = (sourceH - cropHeight) / 2, sw = sourceW, sh = cropHeight\<rparr>)
      else
        (let side = min sourceW sourceH in
         \<lparr>targetW = 500, targetH = 500,
          sx = (sourceW - side) / 2, sy = (sourceH - side) / 2, sw = side, sh = side\<rparr>))"

subsection \<open>Compositing (\<open>downloadImage\<close>, lines 207-287)\<close>

text \<open>
  Lines 261-265: the overlay position, a percentage of the source size, becomes a pixel
  of the source (\<open>pX\<close>, \<open>pY\<close>) and is then mapped through the crop onto the canvas.
\<close>

definition textPosition :: "CropGeometry \<Rightarrow> real \<Rightarrow> real \<Rightarrow> real \<Rightarrow> real \<Rightarrow> real \<times> real" where
  "textPosition g sourceW sourceH x y =
     (let pX = (x / 100) * sourceW;
          pY = (y / 100) * sourceH;
          textX = (pX - sx g) * (targetW g / sw g);
          textY = (pY - sy g) * (targetH g / sh g)
      in (textX, textY))"

text \<open>Line 267.\<close>

definition fontSize :: "export_kind \<Rightarrow> real \<Rightarrow> real" where
  "fontSize type tH =
     (if type = Cover then tH * 0.15 else (if type = Thumb then tH * 0.15 else tH * 0.08))"

text \<open>
  What lines 270-279 do to the 2D context: the font (weight bold, this size, this
  family), the shadow, the fill style, and the one call of \<open>fillText\<close>.
\<close>

record TextDraw =
  td_fontSize :: real
  td_fontFamily :: string
  td_shadowBlur :: real
  td_shadowOffsetX :: real
  td_shadowOffsetY :: real
  td_fillStyle :: string
  td_text :: string
  td_textX :: real
  td_textY :: real

text \<open>
  The canvas after \<open>img.onload\<close>: its size (lines 253-254), the arguments of
  \<open>drawImage\<close> (line 257) and the text drawn on it, \<^const>\<open>None\<close> when the branch of
  line 260 is not taken.
\<close>

record Surface =
  canvas_width :: real
  canvas_height :: real
  drawImage :: "real \<times> real \<times> real \<times> real \<times> real \<times> real \<times> real \<times> real"
  fillText :: "TextDraw option"

definition onload :: "AppState \<Rightarrow> export_kind \<Rightarrow> real \<Rightarrow> real \<Rightarrow> Surface" where
  "onload st type sourceW sourceH =
     (let g = cropGeometry type sourceW sourceH in
      \<lparr>canvas_width = targetW g,
       canvas_height = targetH g,
       drawImage = (sx g, sy g, sw g, sh g, 0, 0, targetW g, targetH g),
       fillText =
         (if showOverlay st \<and> trim (ov_text (overlay st)) \<noteq> [] then
            (let pos = textPosition g sourceW sourceH (ov_x (overlay st)) (ov_y (overlay st));
                 fs = fontSize type (targetH g)
             in Some \<lparr>td_fontSize = fs,
                      td_fontFamily = ov_font (overlay st),
                      td_shadowBlur = fs / 3,
                      td_shadowOffsetX = 0,
                      td_shadowOffsetY = fs / 10,
                      td_fillStyle = ov_color (overlay st),
                      td_text = ov_text (overlay st),
                      td_textX = fst pos,
                      td_textY = snd pos\<rparr>)
          else None)\<rparr>)"

text \<open>
  \<open>downloadImage\<close> itself: \<open>canvasPresent\<close> says that \<open>canvasRef.current\<close> is set,
  \<open>ctxPresent\<close> that \<open>getContext('2d')\<close> gave a context, and \<open>decoded\<close> is the natural
  size of the image once it has loaded (\<^const>\<open>None\<close> when it never loads, so that
  \<open>onload\<close> never runs). The result is the canvas that is offered for download.
\<close>

definition downloadImage ::
  "AppState \<Rightarrow> bool \<Rightarrow> bool \<Rightarrow> export_kind \<Rightarrow> (real \<times> real) option \<Rightarrow> Surface option" where
  "downloadImage st canvasPresent ctxPresent type decoded =
     (if \<not> truthy (generatedImage st) \<or> \<not> canvasPresent then None
      else (case decoded of
              None \<Rightarrow> None
            | Some (sourceW, sourceH) \<Rightarrow>
                if \<not> ctxPresent then None else Some (onload st type sourceW sourceH)))"

subsection \<open>Dragging (lines 178-203)\<close>

text \<open>The fields of \<open>getBoundingClientRect()\<close> that the handler reads.\<close>

record DOMRect =
  rect_left :: real
  rect_top :: real
  rect_width :: real
  rect_height :: real

definition handleMouseDown :: "AppState \<Rightarrow> AppState" where
  "handleMouseDown st =
     (if \<not> showOverlay st then st
      else st\<lparr>overlay := (overlay st)\<lparr>ov_isDragging := True\<rparr>\<rparr>)"

text \<open>
  \<open>container\<close> is the bounding box of \<open>imageContainerRef.current\<close>, \<^const>\<open>None\<close> when
  the ref is not set.
\<close>

definition handleMouseMove :: "AppState \<Rightarrow> DOMRect option \<Rightarrow> real \<Rightarrow> real \<Rightarrow> AppState" where
  "handleMouseMove st container clientX clientY =
     (if \<not> ov_isDragging (overlay st) then st
      else (case container of
              None \<Rightarrow> st
            | Some rect \<Rightarrow>
                (let x = ((clientX - rect_left rect) / rect_width rect) * 100;
                     y = ((clientY - rect_top rect) / rect_height rect) * 100
                 in st\<lparr>overlay := (overlay st)\<lparr>ov_x := max 0 (min 100 x),
                                                ov_y := max 0 (min 100 y)\<rparr>\<rparr>)))"

definition handleMouseUp :: "AppState \<Rightarrow> AppState" where
  "handleMouseUp st = st\<lparr>overlay := (overlay st)\<lparr>ov_isDragging := False\<rparr>\<rparr>"

definition handleGlobalMouseUp :: "AppState \<Rightarrow> AppState" where
  "handleGlobalMouseUp st =
     (if ov_isDragging (overlay st) then st\<lparr>overlay := (overlay st)\<lparr>ov_isDragging := False\<rparr>\<rparr>
      else st)"

subsection \<open>Reference image upload (\<open>handleImageUpload\<close>, lines 69-83)\<close>

text \<open>Of the uploaded \<open>File\<close> the handler reads only \<open>size\<close>, a number of bytes.\<close>

record File =
  file_name :: string
  file_size :: nat

text \<open>
  The handler proper. \<open>files\<close> is \<open>e.target.files?.[0]\<close>. The second component of the
  result is the file given to \<open>reader.readAsDataURL\<close>, \<^const>\<open>None\<close> when no read is
  started.
\<close>

definition handleImageUpload :: "AppState \<Rightarrow> File option \<Rightarrow> AppState \<times> File option" where
  "handleImageUpload st files =
     (case files of
        None \<Rightarrow> (st, None)
      | Some file \<Rightarrow>
          if file_size file > 4 * 1024 * 1024 then
            (st\<lparr>error := Some ''Image size too large. Please choose an image under 4MB.''\<rparr>, None)
          else (st, Some file))"

text \<open>\<open>reader.onload\<close> (lines 77-80), with the data URL the reader produced.\<close>

definition readerOnload :: "AppState \<Rightarrow> string \<Rightarrow> AppState" where
  "readerOnload st result = (st\<lparr>refImage := Some result\<rparr>)\<lparr>error := None\<rparr>"

text \<open>\<open>handleRefine\<close> (lines 85-91).\<close>

definition handleRefine :: "AppState \<Rightarrow> AppState" where
  "handleRefine st =
     (if truthy (generatedImage st) then (st\<lparr>refImage := generatedImage st\<rparr>)\<lparr>error := None\<rparr>
      else st)"

subsection \<open>Generation (\<open>generateCover\<close>, lines 93-175)\<close>

text \<open>
  The response of the generation service, as far as line 149 reads it:
  \<open>response.candidates?.[0]?.content?.parts\<close>, and of each part \<open>inlineData\<close> and its
  \<open>data\<close>. An absent (undefined) member is \<^const>\<open>None\<close>.
\<close>

record InlineData =
  mimeType :: "string option"
  data :: "string option"

record Part =
  inlineData :: "InlineData option"
  part_text :: "string option"

record Content =
  parts :: "Part list option"

record Candidate =
  content :: "Content option"

record GenerateContentResponse =
  candidates :: "Candidate list option"

text \<open>
  What the calls of lines 103-146 come to: either something is thrown (by the
  constructor, or the awaited promise is rejected), and \<open>Rejects m\<close> carries the
  \<open>message\<close> of what was thrown (\<^const>\<open>None\<close> when it has none), or a response arrives.
  What is thrown is taken to be an object, as the errors of the service and of the
  runtime are, so that reading its \<open>message\<close> in the \<open>catch\<close> block does not throw.
\<close>

datatype generation_outcome = Rejects "string option" | Resolves GenerateContentResponse

definition responseParts :: "GenerateContentResponse \<Rightarrow> Part list" where
  "responseParts response =
     (case candidates response of
        None \<Rightarrow> []
      | Some cs \<Rightarrow>
          (case cs of
             [] \<Rightarrow> []
           | c # _ \<Rightarrow>
               (case content c of
                  None \<Rightarrow> []
                | Some ct \<Rightarrow> (case parts ct of None \<Rightarrow> [] | Some ps \<Rightarrow> ps))))"

text \<open>
  The loop of lines 149-155: the data URL of the first part that has \<open>inlineData\<close>. An
  undefined \<open>data\<close> prints as \<open>undefined\<close> in the template string.
\<close>

fun findImage :: "Part list \<Rightarrow> string option" where
  "findImage [] = None"
| "findImage (part # rest) =
     (case inlineData part of
        Some d \<Rightarrow>
          Some (''data:image/png;base64,'' @ (case data d of None \<Rightarrow> ''undefined'' | Some b \<Rightarrow> b))
      | None \<Rightarrow> findImage rest)"

text \<open>Line 170: \<open>err.message || "Failed to generate image."\<close>.\<close>

definition errorMessage :: "string option \<Rightarrow> string" where
  "errorMessage m =
     (case m of
        None \<Rightarrow> ''Failed to generate image.''
      | Some s \<Rightarrow> if s = [] then ''Failed to generate image.'' else s)"

text \<open>
  The \<open>try\<close> block from the state \<open>cur\<close>; \<open>st\<close> is the state the handler closed over,
  from which line 164 reads \<open>showOverlay\<close> and \<open>overlay.text\<close>. The result is the list of
  the states after each setter call of the block, in order, and what was thrown
  (\<^const>\<open>None\<close> when the block completes).
\<close>

definition tryBlock ::
  "AppState \<Rightarrow> AppState \<Rightarrow> generation_outcome \<Rightarrow> AppState list \<times> string option option" where
  "tryBlock st cur outcome =
     (case outcome of
        Rejects m \<Rightarrow> ([], Some m)
      | Resolves response \<Rightarrow>
          (case findImage (responseParts response) of
             None \<Rightarrow>
               ([], Some (Some (''The model generated text instead of an image. '' @
                                ''Please try refining your prompt.'')))
           | Some url \<Rightarrow>
               (let s3 = cur\<lparr>generatedImage := Some url\<rparr>;
                    s4 = s3\<lparr>activeTab := Editor\<rparr>
                in (if \<not> showOverlay st \<and> ov_text (overlay st) \<noteq> []
                    then [s3, s4, s4\<lparr>showOverlay := True\<rparr>]
                    else [s3, s4], None))))"

text \<open>
  \<open>generateCover\<close>, as the list of the states after each setter call, in order; the
  last one is the state the handler leaves. The list has every state that a render
  between two setter calls could show.
\<close>

definition generateCover :: "AppState \<Rightarrow> generation_outcome \<Rightarrow> AppState list" where
  "generateCover st outcome =
     (if trim (prompt st) = [] \<and> \<not> truthy (refImage st) then
        [st\<lparr>error := Some ''Please enter a prompt or upload a reference image.''\<rparr>]
      else
        (let s1 = st\<lparr>isGenerating := True\<rparr>;
             s2 = s1\<lparr>error := None\<rparr>;
             tried = tryBlock st s2 outcome;
             cur = last (s2 # fst tried);
             caught = (case snd tried of
                         None \<Rightarrow> []
                       | Some m \<Rightarrow> [cur\<lparr>error := Some (errorMessage m)\<rparr>]);
             fin = (last (cur # caught))\<lparr>isGenerating := False\<rparr>
         in [s1, s2] @ fst tried @ caught @ [fin]))"

section \<open>Properties\<close>

subsection \<open>Crop planning\<close>

text \<open>
  Claim C1. For a positive source size the cover export has the target 900 by 383, takes
  the whole source width (\<open>sx = 0\<close>, \<open>sw = sourceW\<close>) and a band of height
  \<open>cropHeight = 383 * scale\<close>, \<open>scale = sourceW / 900\<close>, centred vertically:
  \<open>sy = (sourceH - cropHeight) / 2\<close>, \<open>sh = cropHeight\<close>. Nothing is clamped: \<open>sy\<close> is
  negative whenever the source is lower than the band. For a source of 1600 by 900 the
  band is 6128/9 high, which is 681 to the nearest pixel, and \<open>sy\<close> is 986/9, within a
  tenth of 109.5.
\<close>

theorem cover_crop_geometry:
  assumes "0 < sourceW" and "0 < sourceH"
  shows "cropGeometry Cover sourceW sourceH =
           \<lparr>targetW = 900, targetH = 383, sx = 0,
            sy = (sourceH - coverCropHeight sourceW) / 2,
            sw = sourceW, sh = coverCropHeight sourceW\<rparr>
       \<and> coverScale sourceW = sourceW / 900
       \<and> coverCropHeight sourceW = 383 * coverScale sourceW
       \<and> (sourceH < coverCropHeight sourceW \<longrightarrow> sy (cropGeometry Cover sourceW sourceH) < 0)
       \<and> coverCropHeight 1600 = 6128 / 9
       \<and> \<bar>coverCropHeight 1600 - 681\<bar> < 1 / 2
       \<and> sy (cropGeometry Cover 1600 900) = 986 / 9
       \<and> \<bar>sy (cropGeometry Cover 1600 900) - 109.5\<bar> < 1 / 10"
  by (simp add: cropGeometry_def coverCropHeight_def coverScale_def Let_def)

text \<open>A source of 1600 by 600 is lower than its band, and the crop starts above the image.\<close>

theorem cover_crop_geometry_witness:
  "(0::real) < 1600 \<and> (0::real) < 600
   \<and> 600 < coverCropHeight 1600
   \<and> sy (cropGeometry Cover 1600 600) < 0
   \<and> sh (cropGeometry Cover 1600 600) = 6128 / 9"
  using cover_crop_geometry [of 1600 600]
  by (simp add: coverCropHeight_def coverScale_def)

text \<open>
  Claim C2. For a positive source size the icon export crops a square whose side is the
  smaller of the source width and height, onto a target of 500 by 500, and the square
  has the centre of the source: \<open>sx + sw/2 = sourceW/2\<close> and \<open>sy + sh/2 = sourceH/2\<close>.
\<close>

theorem icon_crop_centred:
  assumes "0 < sourceW" and "0 < sourceH"
  shows "sw (cropGeometry Thumb sourceW sourceH) = min sourceW sourceH
       \<and> sh (cropGeometry Thumb sourceW sourceH) = min sourceW sourceH
       \<and> targetW (cropGeometry Thumb sourceW sourceH) = 500
       \<and> targetH (cropGeometry Thumb sourceW sourceH) = 500
       \<and> sx (cropGeometry Thumb sourceW sourceH) + sw (cropGeometry Thumb sourceW sourceH) / 2
           = sourceW / 2
       \<and> sy (cropGeometry Thumb sourceW sourceH) + sh (cropGeometry Thumb sourceW sourceH) / 2
           = sourceH / 2"
  by (simp add: cropGeometry_def Let_def field_simps)

theorem icon_crop_centred_witness:
  "(0::real) < 1600 \<and> (0::real) < 900
   \<and> sw (cropGeometry Thumb 1600 900) = 900
   \<and> sx (cropGeometry Thumb 1600 900) + sw (cropGeometry Thumb 1600 900) / 2 = 800
   \<and> sy (cropGeometry Thumb 1600 900) + sh (cropGeometry Thumb 1600 900) / 2 = 450"
  using icon_crop_centred [of 1600 900] by simp

text \<open>
  Claim C10. For a positive source size the crop rectangle of the icon export lies
  within the source image: neither offset is negative, and the rectangle ends no later
  than the source does, in both axes.
\<close>

theorem icon_crop_within_source:
  assumes "0 < sourceW" and "0 < sourceH"
  shows "0 \<le> sx (cropGeometry Thumb sourceW sourceH)
       \<and> 0 \<le> sy (cropGeometry Thumb sourceW sourceH)
       \<and> sx (cropGeometry Thumb sourceW sourceH) + sw (cropGeometry Thumb sourceW sourceH)
           \<le> sourceW
       \<and> sy (cropGeometry Thumb sourceW sourceH) + sh (cropGeometry Thumb sourceW sourceH)
           \<le> sourceH"
  by (simp add: cropGeometry_def Let_def min_def field_simps)

theorem icon_crop_within_source_witness:
  "(0::real) < 600 \<and> (0::real) < 1000
   \<and> sx (cropGeometry Thumb 600 1000) = 0
   \<and> sy (cropGeometry Thumb 600 1000) = 200
   \<and> sy (cropGeometry Thumb 600 1000) + sh (cropGeometry Thumb 600 1000) \<le> 1000"
  using icon_crop_within_source [of 600 1000]
  by (simp add: cropGeometry_def)

subsection \<open>Re-projection of the overlay position\<close>

text \<open>
  Claim C3. For a positive source size the full export crops nothing: the geometry is
  the rectangle \<open>(0, 0, sourceW, sourceH)\<close> onto a target of the same size. Under that
  geometry the re-projected position of any overlay position \<open>(x, y)\<close>, in particular
  of one in the range 0 to 100, is the plain percentage of the size,
  \<open>(x/100 * sourceW, y/100 * sourceH)\<close>, and that is where the full export draws the
  text when it draws it.
\<close>

theorem full_export_identity:
  assumes "0 < sourceW" and "0 < sourceH"
  shows "cropGeometry Full sourceW sourceH =
           \<lparr>targetW = sourceW, targetH = sourceH, sx = 0, sy = 0, sw = sourceW, sh = sourceH\<rparr>
       \<and> textPosition (cropGeometry Full sourceW sourceH) sourceW sourceH x y =
           (x / 100 * sourceW, y / 100 * sourceH)
       \<and> map_option (\<lambda>td. (td_textX td, td_textY td))
           (fillText (onload st Full sourceW sourceH)) =
           (if showOverlay st \<and> trim (ov_text (overlay st)) \<noteq> []
            then Some (ov_x (overlay st) / 100 * sourceW, ov_y (overlay st) / 100 * sourceH)
            else None)"
  using assms by (simp add: cropGeometry_def textPosition_def onload_def Let_def)

theorem full_export_identity_witness:
  "(0::real) < 1600 \<and> (0::real) < 900
   \<and> textPosition (cropGeometry Full 1600 900) 1600 900 25 75 = (400, 675)"
proof -
  have w: "(0::real) < 1600" and h: "(0::real) < 900"
    by simp_all
  from full_export_identity [OF w h, where x = 25 and y = 75 and st = initialState]
  have "textPosition (cropGeometry Full 1600 900) 1600 900 25 75 = (25 / 100 * 1600, 75 / 100 * 900)"
    by (elim conjE)
  then show ?thesis
    by simp
qed

text \<open>
  Claim C4. For a source of 1200 by 800 the icon export crops the square of side 800 at
  \<open>sx = 200\<close>, \<open>sy = 0\<close>, and the overlay position \<open>(50, 50)\<close> is re-projected to
  \<open>(250, 250)\<close>, the centre of the 500 by 500 output; an enabled overlay with a text at
  that position is drawn there.
\<close>

theorem icon_centre_scenario:
  "cropGeometry Thumb 1200 800 =
     \<lparr>targetW = 500, targetH = 500, sx = 200, sy = 0, sw = 800, sh = 800\<rparr>
   \<and> textPosition (cropGeometry Thumb 1200 800) 1200 800 50 50 = (250, 250)
   \<and> map_option (\<lambda>td. (td_textX td, td_textY td))
       (fillText (onload (st\<lparr>showOverlay := True,
                             overlay := (overlay st)\<lparr>ov_text := ''Title'',
                                                     ov_x := 50, ov_y := 50\<rparr>\<rparr>)
                    Thumb 1200 800)) = Some (250, 250)"
  by (simp add: cropGeometry_def textPosition_def onload_def Let_def trim_def isWhiteSpace_def)

subsection \<open>Dragging\<close>

text \<open>
  Claim C5. On a pointer move during a drag, with a bounding box of positive width and
  height, the handler stores \<open>x = (clientX - left) / width * 100\<close> and
  \<open>y = (clientY - top) / height * 100\<close>, each clamped to the range 0 to 100: whatever
  the pointer position, inside the box or not, the stored \<open>x\<close> and \<open>y\<close> are at least 0
  and at most 100.
\<close>

theorem drag_move_clamped:
  assumes "ov_isDragging (overlay st)"
      and "0 < rect_width rect" and "0 < rect_height rect"
  shows "ov_x (overlay (handleMouseMove st (Some rect) clientX clientY)) =
           max 0 (min 100 ((clientX - rect_left rect) / rect_width rect * 100))
       \<and> ov_y (overlay (handleMouseMove st (Some rect) clientX clientY)) =
           max 0 (min 100 ((clientY - rect_top rect) / rect_height rect * 100))
       \<and> 0 \<le> ov_x (overlay (handleMouseMove st (Some rect) clientX clientY))
       \<and> ov_x (overlay (handleMouseMove st (Some rect) clientX clientY)) \<le> 100
       \<and> 0 \<le> ov_y (overlay (handleMouseMove st (Some rect) clientX clientY))
       \<and> ov_y (overlay (handleMouseMove st (Some rect) clientX clientY)) \<le> 100"
  using assms by (simp add: handleMouseMove_def Let_def)

text \<open>
  A drag started on the enabled overlay; the pointer is left of the box and at half its
  height.
\<close>

theorem drag_move_clamped_witness:
  "ov_isDragging (overlay (handleMouseDown (initialState\<lparr>showOverlay := True\<rparr>)))
   \<and> (0::real) < 800 \<and> (0::real) < 450
   \<and> ov_x (overlay (handleMouseMove (handleMouseDown (initialState\<lparr>showOverlay := True\<rparr>))
        (Some \<lparr>rect_left = 100, rect_top = 50, rect_width = 800, rect_height = 450\<rparr>) 20 275))
       = 0
   \<and> ov_y (overlay (handleMouseMove (handleMouseDown (initialState\<lparr>showOverlay := True\<rparr>))
        (Some \<lparr>rect_left = 100, rect_top = 50, rect_width = 800, rect_height = 450\<rparr>) 20 275))
       = 50"
  using drag_move_clamped
          [of "handleMouseDown (initialState\<lparr>showOverlay := True\<rparr>)"
              "\<lparr>rect_left = 100, rect_top = 50, rect_width = 800, rect_height = 450\<rparr>" 20 275]
  by (simp add: handleMouseDown_def initialState_def)

subsection \<open>Drawing the overlay text\<close>

text \<open>
  Claim C6. In every export kind, when the overlay is disabled or its text is empty, the
  exported canvas has no text drawn on it; so a disabled overlay with a text draws
  nothing.
\<close>

theorem overlay_text_suppressed:
  assumes "\<not> showOverlay st \<or> ov_text (overlay st) = []"
      and "downloadImage st canvasPresent ctxPresent type decoded = Some surface"
  shows "fillText surface = None"
  using assms
  by (auto simp: downloadImage_def onload_def Let_def trim_def split: if_splits option.splits)

text \<open>A generated image and a text, with the overlay switched off, exported as cover.\<close>

theorem overlay_text_suppressed_witness:
  "\<not> showOverlay (initialState\<lparr>generatedImage := Some ''data:image/png;base64,AAAA'',
                                overlay := (overlay initialState)\<lparr>ov_text := ''Title''\<rparr>\<rparr>)
   \<and> downloadImage (initialState\<lparr>generatedImage := Some ''data:image/png;base64,AAAA'',
                                 overlay := (overlay initialState)\<lparr>ov_text := ''Title''\<rparr>\<rparr>)
        True True Cover (Some (1600, 900))
      = Some (onload (initialState\<lparr>generatedImage := Some ''data:image/png;base64,AAAA'',
                                   overlay := (overlay initialState)\<lparr>ov_text := ''Title''\<rparr>\<rparr>)
                Cover 1600 900)
   \<and> fillText (onload (initialState\<lparr>generatedImage := Some ''data:image/png;base64,AAAA'',
                                    overlay := (overlay initialState)\<lparr>ov_text := ''Title''\<rparr>\<rparr>)
                 Cover 1600 900) = None"
  using overlay_text_suppressed
          [of "initialState\<lparr>generatedImage := Some ''data:image/png;base64,AAAA'',
                            overlay := (overlay initialState)\<lparr>ov_text := ''Title''\<rparr>\<rparr>"
              True True Cover "Some (1600, 900)"
              "onload (initialState\<lparr>generatedImage := Some ''data:image/png;base64,AAAA'',
                                    overlay := (overlay initialState)\<lparr>ov_text := ''Title''\<rparr>\<rparr>)
                 Cover 1600 900"]
  by (simp add: downloadImage_def truthy_def initialState_def)

text \<open>
  Claim C7 speaks of an enabled overlay with a non-empty text. Line 260 draws the text
  when the overlay is enabled and the text is not empty after \<open>trim()\<close>. An enabled
  overlay whose text is one space has a non-empty text, and the cover export of a 1600
  by 900 source draws no text for it and sets no font.
\<close>

theorem font_size_blank_text_counterexample:
  "showOverlay (initialState\<lparr>showOverlay := True,
                             overlay := (overlay initialState)\<lparr>ov_text := '' ''\<rparr>\<rparr>)
   \<and> ov_text (overlay (initialState\<lparr>showOverlay := True,
                                    overlay := (overlay initialState)\<lparr>ov_text := '' ''\<rparr>\<rparr>))
       \<noteq> []
   \<and> fillText (onload (initialState\<lparr>showOverlay := True,
                                    overlay := (overlay initialState)\<lparr>ov_text := '' ''\<rparr>\<rparr>)
                 Cover 1600 900) = None"
  by (simp add: onload_def Let_def trim_def isWhiteSpace_def initialState_def)

text \<open>
  Claim C7, amended. When the overlay is enabled and its text is not empty after
  trimming white space, the text is drawn, and its font size is the height of the target
  times 0.15 for the cover and the icon export and times 0.08 for the full export; the
  height of the target is 383 for the cover, 500 for the icon and the source height for
  the full export.
\<close>

theorem font_size_of_drawn_text:
  assumes "showOverlay st" and "trim (ov_text (overlay st)) \<noteq> []"
  shows "map_option td_fontSize (fillText (onload st type sourceW sourceH)) =
           Some (if type = Full then canvas_height (onload st type sourceW sourceH) * 0.08
                 else canvas_height (onload st type sourceW sourceH) * 0.15)
       \<and> canvas_height (onload st type sourceW sourceH) =
           targetH (cropGeometry type sourceW sourceH)
       \<and> targetH (cropGeometry type sourceW sourceH) =
           (case type of Full \<Rightarrow> sourceH | Cover \<Rightarrow> 383 | Thumb \<Rightarrow> 500)"
  using assms by (cases type) (simp_all add: onload_def cropGeometry_def fontSize_def Let_def)

theorem font_size_of_drawn_text_witness:
  "showOverlay (initialState\<lparr>showOverlay := True,
                             overlay := (overlay initialState)\<lparr>ov_text := ''Title''\<rparr>\<rparr>)
   \<and> trim (ov_text (overlay (initialState\<lparr>showOverlay := True,
                                          overlay := (overlay initialState)\<lparr>ov_text := ''Title''\<rparr>\<rparr>)))
       \<noteq> []
   \<and> map_option td_fontSize
       (fillText (onload (initialState\<lparr>showOverlay := True,
                                       overlay := (overlay initialState)\<lparr>ov_text := ''Title''\<rparr>\<rparr>)
                    Cover 1600 900)) = Some (1149 / 20)"
proof -
  let ?s = "initialState\<lparr>showOverlay := True,
                         overlay := (overlay initialState)\<lparr>ov_text := ''Title''\<rparr>\<rparr>"
  have enabled: "showOverlay ?s"
    by simp
  have nonblank: "trim (ov_text (overlay ?s)) \<noteq> []"
    by (simp add: trim_def isWhiteSpace_def)
  from font_size_of_drawn_text [OF enabled nonblank, of Cover 1600 900]
  have "map_option td_fontSize (fillText (onload ?s Cover 1600 900)) = Some (1149 / 20)"
    by (simp del: map_option_eq_Some)
  with enabled nonblank show ?thesis
    by (simp del: map_option_eq_Some)
qed

subsection \<open>Upload\<close>

text \<open>
  Claim C8. For an uploaded file of more than 4 MiB the handler sets an error message and
  returns: no read is started, and the reference image, the generated image and the
  overlay state are those of before. A file of at most 4 MiB is accepted: no error is
  set and the file is handed to the reader.
\<close>

theorem oversized_upload_rejected:
  "(4 * 1024 * 1024 < file_size file \<longrightarrow>
      handleImageUpload st (Some file) =
        (st\<lparr>error := Some ''Image size too large. Please choose an image under 4MB.''\<rparr>, None)
      \<and> refImage (fst (handleImageUpload st (Some file))) = refImage st
      \<and> generatedImage (fst (handleImageUpload st (Some file))) = generatedImage st
      \<and> overlay (fst (handleImageUpload st (Some file))) = overlay st
      \<and> showOverlay (fst (handleImageUpload st (Some file))) = showOverlay st
      \<and> error (fst (handleImageUpload st (Some file))) \<noteq> None)
   \<and> (file_size file \<le> 4 * 1024 * 1024 \<longrightarrow>
        handleImageUpload st (Some file) = (st, Some file))"
  by (simp add: handleImageUpload_def)

text \<open>A file of 5 MiB is refused, one of exactly 4 MiB is read.\<close>

theorem oversized_upload_rejected_witness:
  "4 * 1024 * 1024 < file_size \<lparr>file_name = ''big.png'', file_size = 5 * 1024 * 1024\<rparr>
   \<and> snd (handleImageUpload initialState
             (Some \<lparr>file_name = ''big.png'', file_size = 5 * 1024 * 1024\<rparr>)) = None
   \<and> refImage (fst (handleImageUpload initialState
                       (Some \<lparr>file_name = ''big.png'', file_size = 5 * 1024 * 1024\<rparr>))) = None
   \<and> error (fst (handleImageUpload initialState
                    (Some \<lparr>file_name = ''big.png'', file_size = 5 * 1024 * 1024\<rparr>))) \<noteq> None
   \<and> file_size \<lparr>file_name = ''ok.png'', file_size = 4 * 1024 * 1024\<rparr> \<le> 4 * 1024 * 1024
   \<and> handleImageUpload initialState
        (Some \<lparr>file_name = ''ok.png'', file_size = 4 * 1024 * 1024\<rparr>) =
       (initialState, Some \<lparr>file_name = ''ok.png'', file_size = 4 * 1024 * 1024\<rparr>)"
  using oversized_upload_rejected
          [of "\<lparr>file_name = ''big.png'', file_size = 5 * 1024 * 1024\<rparr>" initialState]
        oversized_upload_rejected
          [of "\<lparr>file_name = ''ok.png'', file_size = 4 * 1024 * 1024\<rparr>" initialState]
  by (simp add: initialState_def)

subsection \<open>Generation failure\<close>

lemma findImage_without_inlineData:
  "list_all (\<lambda>p. inlineData p = None) ps \<Longrightarrow> findImage ps = None"
  by (induction ps) auto

text \<open>
  Claim C9. When the generation fails, by a throw or by a response none of whose parts
  is an image, every state the handler passes through has the generated image, the
  overlay and the overlay switch of before, so no partly set image is ever shown, and
  the handler leaves one error message, which is not empty and so is shown (line 409
  shows \<open>error\<close> when it is truthy): the message of what was thrown, or
  \<open>Failed to generate image.\<close> when that has no message or an empty one, or the fixed
  message of the response without an image. (When no call is made, for want of a prompt
  and of a reference image, the message is the one that asks for them.)
\<close>

theorem generation_failure_keeps_state:
  assumes "case outcome of
             Rejects m \<Rightarrow> True
           | Resolves response \<Rightarrow> list_all (\<lambda>p. inlineData p = None) (responseParts response)"
  shows "list_all (\<lambda>s. generatedImage s = generatedImage st \<and> overlay s = overlay st
                        \<and> showOverlay s = showOverlay st)
           (generateCover st outcome)
       \<and> error (last (generateCover st outcome)) =
           Some (if trim (prompt st) = [] \<and> \<not> truthy (refImage st)
                 then ''Please enter a prompt or upload a reference image.''
                 else (case outcome of
                         Rejects m \<Rightarrow>
                           (case m of
                              None \<Rightarrow> ''Failed to generate image.''
                            | Some s \<Rightarrow> if s = [] then ''Failed to generate image.'' else s)
                       | Resolves response \<Rightarrow>
                           ''The model generated text instead of an image. '' @
                           ''Please try refining your prompt.''))
       \<and> error (last (generateCover st outcome)) \<noteq> Some []
       \<and> truthy (error (last (generateCover st outcome)))"
proof (cases outcome)
  case (Rejects m)
  then show ?thesis
    by (cases m)
       (simp_all add: generateCover_def tryBlock_def Let_def errorMessage_def truthy_def)
next
  case (Resolves response)
  with assms have "findImage (responseParts response) = None"
    by (simp add: findImage_without_inlineData)
  with Resolves show ?thesis
    by (simp add: generateCover_def tryBlock_def Let_def errorMessage_def truthy_def)
qed

text \<open>
  A state with a prompt and an earlier image. The service answers with a text part only;
  or its call is rejected with a message, with no message, or with an empty one.
\<close>

theorem generation_failure_keeps_state_witness:
  "list_all (\<lambda>p. inlineData p = None)
     (responseParts \<lparr>candidates = Some [\<lparr>content = Some \<lparr>parts = Some
        [\<lparr>inlineData = None, part_text = Some ''A cat.''\<rparr>]\<rparr>\<rparr>]\<rparr>)
   \<and> generatedImage (last (generateCover
        (initialState\<lparr>prompt := ''a cat'', generatedImage := Some ''data:image/png;base64,AAAA''\<rparr>)
        (Resolves \<lparr>candidates = Some [\<lparr>content = Some \<lparr>parts = Some
           [\<lparr>inlineData = None, part_text = Some ''A cat.''\<rparr>]\<rparr>\<rparr>]\<rparr>)))
       = Some ''data:image/png;base64,AAAA''
   \<and> error (last (generateCover
        (initialState\<lparr>prompt := ''a cat'', generatedImage := Some ''data:image/png;base64,AAAA''\<rparr>)
        (Resolves \<lparr>candidates = Some [\<lparr>content = Some \<lparr>parts = Some
           [\<lparr>inlineData = None, part_text = Some ''A cat.''\<rparr>]\<rparr>\<rparr>]\<rparr>)))
       = Some (''The model generated text instead of an image. '' @
               ''Please try refining your prompt.'')
   \<and> error (last (generateCover
        (initialState\<lparr>prompt := ''a cat'', generatedImage := Some ''data:image/png;base64,AAAA''\<rparr>)
        (Rejects (Some ''quota exceeded''))))
       = Some ''quota exceeded''
   \<and> error (last (generateCover
        (initialState\<lparr>prompt := ''a cat'', generatedImage := Some ''data:image/png;base64,AAAA''\<rparr>)
        (Rejects None)))
       = Some ''Failed to generate image.''
   \<and> error (last (generateCover
        (initialState\<lparr>prompt := ''a cat'', generatedImage := Some ''data:image/png;base64,AAAA''\<rparr>)
        (Rejects (Some []))))
       = Some ''Failed to generate image.''
   \<and> generatedImage (last (generateCover
        (initialState\<lparr>prompt := ''a cat'', generatedImage := Some ''data:image/png;base64,AAAA''\<rparr>)
        (Rejects None)))
       = Some ''data:image/png;base64,AAAA''"
proof -
  let ?st = "initialState\<lparr>prompt := ''a cat'',
                          generatedImage := Some ''data:image/png;base64,AAAA''\<rparr>"
  let ?r = "\<lparr>candidates = Some [\<lparr>content = Some \<lparr>parts = Some
              [\<lparr>inlineData = None, part_text = Some ''A cat.''\<rparr>]\<rparr>\<rparr>]\<rparr>"
  have called: "\<not> (trim (prompt ?st) = [] \<and> \<not> truthy (refImage ?st))"
    by (simp add: trim_def isWhiteSpace_def)
  have old: "generatedImage ?st = Some ''data:image/png;base64,AAAA''"
    by simp
  have traces: "generateCover ?st (Resolves ?r) \<noteq> []" "generateCover ?st (Rejects None) \<noteq> []"
    by (simp_all add: generateCover_def Let_def)
  have noimage: "list_all (\<lambda>p. inlineData p = None) (responseParts ?r)"
    by (simp add: responseParts_def)
  then have h: "case Resolves ?r of
                  Rejects m \<Rightarrow> True
                | Resolves response \<Rightarrow>
                    list_all (\<lambda>p. inlineData p = None) (responseParts response)"
    by simp
  note text_only = generation_failure_keeps_state [of "Resolves ?r" ?st, OF h]
  note with_message = generation_failure_keeps_state [of "Rejects (Some ''quota exceeded'')" ?st]
  note no_message = generation_failure_keeps_state [of "Rejects None" ?st]
  note empty_message = generation_failure_keeps_state [of "Rejects (Some [])" ?st]
  have kept: "generatedImage (last (generateCover ?st (Resolves ?r))) = generatedImage ?st"
             "generatedImage (last (generateCover ?st (Rejects None))) = generatedImage ?st"
    using text_only no_message traces
    by (simp_all add: list_all_iff)
  have messages:
    "error (last (generateCover ?st (Resolves ?r))) =
       Some (''The model generated text instead of an image. '' @
             ''Please try refining your prompt.'')"
    "error (last (generateCover ?st (Rejects (Some ''quota exceeded'')))) = Some ''quota exceeded''"
    "error (last (generateCover ?st (Rejects None))) = Some ''Failed to generate image.''"
    "error (last (generateCover ?st (Rejects (Some [])))) = Some ''Failed to generate image.''"
    using text_only with_message no_message empty_message called
    by simp_all
  from noimage kept old messages show ?thesis
    by simp
qed

end
